theory Spec2Isabelle
  imports Complex_Main
begin

section \<open>Data model of the watch service (src/app/watch.go, configuration structs)\<close>

text \<open>
  A \<open>table\<close> is the positional output of a parser; the type \<open>record\<close> of the source, one
  row keyed by field name, is \<open>row\<close> here (\<open>record\<close> is a keyword of Isabelle); \<open>records\<close>
  maps a record id to its rows. Go maps are partial functions; Go's \<open>float64\<close> is
  represented by the real number it denotes. The field \<open>value\<close> of \<open>metric\<close> is \<open>val\<close>, and
  the fields of the configuration structs carry the name of their struct where two
  structs share a field name.
\<close>

type_synonym table = "string list list"
type_synonym row = "string \<rightharpoonup> string"
type_synonym records = "string \<rightharpoonup> row list"
type_synonym float64 = real





record ParserRecordConfig =
  Record_Id :: string
  FirstLineIsHeader :: bool
  Record_Header :: "string list"
  ParserOptions :: "string \<rightharpoonup> string"

record SourceOutputConfig =
  Output_Parser :: string
  Output_Records :: "ParserRecordConfig list"

record SourceConfig =
  Source_Id :: string
  Source_Command :: string
  Source_Timeout :: int
  Source_Output :: SourceOutputConfig

subsection \<open>Errors and panics\<close>

text \<open>
  An \<open>error\<close> is a value returned through Go's second result; a \<open>panic\<close> is a run-time
  panic, which no function of watch.go recovers. Errors built by \<open>fmt.Errorf\<close> keep what
  the message is formatted from: the name of the offending option and the option map.
\<close>

datatype csv_error = ErrBareQuote | ErrQuote | ErrFieldCount | ErrInvalidDelim

datatype error =
    UndefinedCommand
  | InvalidParserOption string "string \<rightharpoonup> string"
  | HtmlqueryParserError error
  | CsvError csv_error
  | CommandError string
  | HtmlError string

datatype panic = IndexOutOfRange | SliceBoundsOutOfRange | NilDereference | LibraryPanic string

datatype fault = Error error | Panic panic

section \<open>table.zip\<close>

text \<open>
  The inner loop of \<open>zip\<close>: \<open>for j := 0; j < len(header); j++ { res[i][header[j]] = r[j] }\<close>.
  Reading \<open>r[j]\<close> past the end of the row panics.
\<close>

function zip_fields :: "string list \<Rightarrow> string list \<Rightarrow> nat \<Rightarrow> row \<Rightarrow> panic + row" where
  "zip_fields header r j res =
     (if j < length header then
        (if j < length r then zip_fields header r (Suc j) (res(header ! j \<mapsto> r ! j))
         else Inl IndexOutOfRange)
      else Inr res)"
  by pat_completeness auto
termination
  by (relation "measure (\<lambda>(header, r, j, res). length header - j)") auto

declare zip_fields.simps [simp del]

text \<open>The outer loop: \<open>for i, r := range t { res[i] = make(record); ... }\<close>.\<close>

fun zip_rows :: "string list \<Rightarrow> table \<Rightarrow> panic + row list" where
  "zip_rows header [] = Inr []"
| "zip_rows header (r # t) =
     (case zip_fields header r 0 Map.empty of
        Inl p \<Rightarrow> Inl p
      | Inr x \<Rightarrow> (case zip_rows header t of Inl p \<Rightarrow> Inl p | Inr xs \<Rightarrow> Inr (x # xs)))"

text \<open>
  \<open>if skipFirstLine { res = res[1:] }\<close>: slicing from 1 panics when \<open>res\<close> is empty.
\<close>

definition table_zip :: "table \<Rightarrow> string list \<Rightarrow> bool \<Rightarrow> panic + row list" where
  "table_zip t header skipFirstLine =
     (case zip_rows header t of
        Inl p \<Rightarrow> Inl p
      | Inr res \<Rightarrow>
          if skipFirstLine then
            (if 1 \<le> length res then Inr (drop 1 res) else Inl SliceBoundsOutOfRange)
          else Inr res)"

section \<open>The delimited reader of Go's encoding/csv\<close>

text \<open>
  \<open>csvParser.Parse\<close> hands its input to \<open>csv.Reader.ReadAll\<close> with \<open>Comma\<close> and
  \<open>TrimLeadingSpace\<close> set and every other option at its zero value (no comment rune, no
  lazy quotes, \<open>FieldsPerRecord = 0\<close>). The reader belongs to the Go standard library, not
  to the repository; the parsers below take it as a parameter. What follows is a model of
  that reader, written after the library's \<open>readLine\<close>, \<open>readRecord\<close> and \<open>ReadAll\<close>, for
  the closed statements that need to run it. Strings are byte sequences; \<open>Comma\<close> is an
  ASCII character.
\<close>

abbreviation LF :: char where "LF \<equiv> CHR 0x0A"
abbreviation CR :: char where "CR \<equiv> CHR 0x0D"
abbreviation DQ :: char where "DQ \<equiv> CHR 0x22"

text \<open>
  \<open>readLine\<close> turns a trailing \<open>\r\n\<close> of every line into \<open>\n\<close> and drops a \<open>\r\<close> that
  ends the input.
\<close>

fun normalize_newlines :: "string \<Rightarrow> string" where
  "normalize_newlines [] = []"
| "normalize_newlines [c] = (if c = CR then [] else [c])"
| "normalize_newlines (c # d # s) =
     (if c = CR \<and> d = LF then LF # normalize_newlines s
      else c # normalize_newlines (d # s))"

text \<open>
  The white-space runes of \<open>unicode.IsSpace\<close> in their UTF-8 encoding, the line feed
  apart: it ends the line and is handled by the field loop. \<open>space_rune_len\<close> is the
  number of bytes of the white-space rune that starts the string, or 0.
\<close>

definition space_runes :: "string list" where
  "space_runes =
     [[CHR 0x09], [CHR 0x0B], [CHR 0x0C], [CR], [CHR 0x20],
      [CHR 0xC2, CHR 0x85], [CHR 0xC2, CHR 0xA0], [CHR 0xE1, CHR 0x9A, CHR 0x80],
      [CHR 0xE2, CHR 0x80, CHR 0x80], [CHR 0xE2, CHR 0x80, CHR 0x81],
      [CHR 0xE2, CHR 0x80, CHR 0x82], [CHR 0xE2, CHR 0x80, CHR 0x83],
      [CHR 0xE2, CHR 0x80, CHR 0x84], [CHR 0xE2, CHR 0x80, CHR 0x85],
      [CHR 0xE2, CHR 0x80, CHR 0x86], [CHR 0xE2, CHR 0x80, CHR 0x87],
      [CHR 0xE2, CHR 0x80, CHR 0x88], [CHR 0xE2, CHR 0x80, CHR 0x89],
      [CHR 0xE2, CHR 0x80, CHR 0x8A], [CHR 0xE2, CHR 0x80, CHR 0xA8],
      [CHR 0xE2, CHR 0x80, CHR 0xA9], [CHR 0xE2, CHR 0x80, CHR 0xAF],
      [CHR 0xE2, CHR 0x81, CHR 0x9F], [CHR 0xE3, CHR 0x80, CHR 0x80]]"

definition space_rune_len :: "string \<Rightarrow> nat" where
  "space_rune_len s =
     (case find (\<lambda>p. take (length p) s = p) space_runes of
        None \<Rightarrow> 0
      | Some p \<Rightarrow> length p)"

lemma space_rune_len_le: "space_rune_len s \<le> length s"
proof (cases "find (\<lambda>p. take (length p) s = p) space_runes")
  case None
  then show ?thesis by (simp add: space_rune_len_def)
next
  case (Some p)
  then have "take (length p) s = p"
    by (auto simp: find_Some_iff)
  then have "length p = min (length s) (length p)"
    by (metis length_take)
  with Some show ?thesis by (simp add: space_rune_len_def)
qed

lemma space_rune_len_Nil: "space_rune_len [] = 0"
  using space_rune_len_le [of "[]"] by simp

lemma space_rune_len_nonempty: "0 < space_rune_len s \<Longrightarrow> s \<noteq> []"
  using space_rune_len_Nil by auto

function trim_leading_space :: "string \<Rightarrow> string" where
  "trim_leading_space s =
     (if 0 < space_rune_len s then trim_leading_space (drop (space_rune_len s) s) else s)"
  by pat_completeness auto
termination
proof (relation "measure length", goal_cases)
  case 1
  show ?case by simp
next
  case (2 s)
  then have "s \<noteq> []" by (rule space_rune_len_nonempty)
  with 2 show ?case by (cases s) auto
qed

declare trim_leading_space.simps [simp del]

lemma length_trim_leading_space: "length (trim_leading_space s) \<le> length s"
proof (induction s rule: trim_leading_space.induct)
  case (1 s)
  show ?case
  proof (cases "0 < space_rune_len s")
    case True
    with 1 have "length (trim_leading_space (drop (space_rune_len s) s)) \<le> length s"
      by (simp add: le_diff_conv trans_le_add1)
    with True show ?thesis by (subst trim_leading_space.simps) simp
  next
    case False
    then show ?thesis by (subst trim_leading_space.simps) simp
  qed
qed

datatype field_end = AtComma | AtLineEnd

text \<open>
  A quoted field, after its opening quote. It runs over line ends; a doubled quote is a
  quote; a closing quote must be followed by the delimiter or the end of the line.
\<close>

fun quoted_field :: "char \<Rightarrow> string \<Rightarrow> string \<Rightarrow> csv_error + (string \<times> field_end \<times> string)" where
  "quoted_field comma [] acc = Inl ErrQuote"
| "quoted_field comma (c # s) acc =
     (if c = DQ then
        (case s of
           [] \<Rightarrow> Inr (acc, AtLineEnd, [])
         | d # s' \<Rightarrow>
             if d = DQ then quoted_field comma s' (acc @ [DQ])
             else if d = comma then Inr (acc, AtComma, s')
             else if d = LF then Inr (acc, AtLineEnd, s')
             else Inl ErrQuote)
      else quoted_field comma s (acc @ [c]))"

lemma quoted_field_shorter:
  "quoted_field comma s acc = Inr (f, k, rest) \<Longrightarrow> length rest < length s"
  by (induction comma s acc rule: quoted_field.induct)
     (auto split: if_splits list.splits)

text \<open>The \<open>parseField\<close> loop of \<open>readRecord\<close>: the fields of one record and the rest of the input.\<close>

function parse_fields :: "char \<Rightarrow> bool \<Rightarrow> string \<Rightarrow> string list \<Rightarrow> csv_error + (string list \<times> string)" where
  "parse_fields comma trim line0 dst =
     (let line = (if trim then trim_leading_space line0 else line0) in
      if line \<noteq> [] \<and> hd line = DQ then
        (case quoted_field comma (tl line) [] of
           Inl e \<Rightarrow> Inl e
         | Inr (field, AtComma, rest) \<Rightarrow> parse_fields comma trim rest (dst @ [field])
         | Inr (field, AtLineEnd, rest) \<Rightarrow> Inr (dst @ [field], rest))
      else
        (let field = takeWhile (\<lambda>c. c \<noteq> comma \<and> c \<noteq> LF) line;
             rest = dropWhile (\<lambda>c. c \<noteq> comma \<and> c \<noteq> LF) line in
         if DQ \<in> set field then Inl ErrBareQuote
         else (case rest of
                 [] \<Rightarrow> Inr (dst @ [field], [])
               | c # rest' \<Rightarrow>
                   if c = comma then parse_fields comma trim rest' (dst @ [field])
                   else Inr (dst @ [field], rest'))))"
  by pat_completeness auto
termination
proof (relation "measure (\<lambda>(comma, trim, line0, dst). length line0)", goal_cases)
  case 1
  show ?case by simp
next
  case (2 comma trim line0 dst line x2 field y k rest)
  then have "length rest < length (tl line)"
    using quoted_field_shorter by metis
  moreover have "length line \<le> length line0"
    using 2 length_trim_leading_space by (auto split: if_splits)
  ultimately show ?case by simp
next
  case (3 comma trim line0 dst line field rest c rest')
  from 3 have r1: "rest = dropWhile (\<lambda>c. c \<noteq> comma \<and> c \<noteq> LF) line" by blast
  from 3 have r2: "rest = c # rest'" by blast
  have "length rest \<le> length line"
    unfolding r1 by (rule length_dropWhile_le)
  with r2 have "length rest' < length line" by simp
  moreover have "length line \<le> length line0"
    using 3 length_trim_leading_space by (auto split: if_splits)
  ultimately show ?case by simp
qed

declare parse_fields.simps [simp del]

lemma trim_leading_space_Nil: "trim_leading_space [] = []"
  by (subst trim_leading_space.simps) (simp add: space_rune_len_Nil)

lemma parse_fields_Nil: "parse_fields comma trim [] dst = Inr (dst @ [[]], [])"
  by (subst parse_fields.simps) (simp add: trim_leading_space_Nil)

lemma parse_fields_shorter:
  "parse_fields comma trim s dst = Inr (r, rest) \<Longrightarrow> s \<noteq> [] \<Longrightarrow> length rest < length s"
proof (induction comma trim s dst arbitrary: r rest rule: parse_fields.induct)
  case (1 comma trim line0 dst)
  define line where "line = (if trim then trim_leading_space line0 else line0)"
  have le: "length line \<le> length line0"
    by (simp add: line_def length_trim_leading_space)
  show ?case
  proof (cases "line \<noteq> [] \<and> hd line = DQ")
    case True
    show ?thesis
    proof (cases "quoted_field comma (tl line) []")
      case (Inl e)
      with True 1(3) show ?thesis
        by (subst (asm) parse_fields.simps) (simp add: line_def [symmetric])
    next
      case (Inr q)
      obtain field k rest0 where q: "q = (field, k, rest0)" by (cases q)
      have short: "length rest0 < length (tl line)"
        using Inr q quoted_field_shorter by metis
      show ?thesis
      proof (cases k)
        case AtComma
        have rec: "parse_fields comma trim rest0 (dst @ [field]) = Inr (r, rest)"
          using True Inr q AtComma 1(3)
          by (subst (asm) parse_fields.simps) (simp add: line_def [symmetric])
        have "length rest \<le> length rest0"
        proof (cases "rest0 = []")
          case True
          with rec show ?thesis
            by (simp add: parse_fields_Nil)
        next
          case False
          with 1(1) [OF line_def True, of "(field, k, rest0)" field "(k, rest0)" k rest0 r rest]
            Inr q AtComma rec
          show ?thesis by simp
        qed
        with short le show ?thesis by simp
      next
        case AtLineEnd
        have "rest = rest0"
          using True Inr q AtLineEnd 1(3)
          by (subst (asm) parse_fields.simps) (simp add: line_def [symmetric])
        with short le show ?thesis by simp
      qed
    qed
  next
    case False
    define field where "field = takeWhile (\<lambda>c. c \<noteq> comma \<and> c \<noteq> LF) line"
    define rest0 where "rest0 = dropWhile (\<lambda>c. c \<noteq> comma \<and> c \<noteq> LF) line"
    have split: "line = field @ rest0"
      by (simp add: field_def rest0_def)
    have unf: "parse_fields comma trim line0 dst =
        (if DQ \<in> set field then Inl ErrBareQuote
         else (case rest0 of
                 [] \<Rightarrow> Inr (dst @ [field], [])
               | c # rest' \<Rightarrow>
                   if c = comma then parse_fields comma trim rest' (dst @ [field])
                   else Inr (dst @ [field], rest')))"
      using False
      by (subst parse_fields.simps)
         (auto simp add: line_def [symmetric] field_def [symmetric] rest0_def [symmetric] Let_def)
    show ?thesis
    proof (cases rest0)
      case Nil
      with unf 1(3) have "rest = []" by (simp split: if_splits)
      with 1(4) show ?thesis by simp
    next
      case (Cons c rest')
      have l: "length rest' < length line0"
        using split Cons le by simp
      show ?thesis
      proof (cases "c = comma")
        case True
        with unf Cons 1(3) have nq: "DQ \<notin> set field"
          and rec: "parse_fields comma trim rest' (dst @ [field]) = Inr (r, rest)"
          by (simp_all split: if_splits)
        have "length rest \<le> length rest'"
        proof (cases "rest' = []")
          case True
          with rec show ?thesis
            by (simp add: parse_fields_Nil)
        next
          case False
          with 1(2) [OF line_def \<open>\<not> (line \<noteq> [] \<and> hd line = DQ)\<close> field_def rest0_def nq Cons True rec]
          show ?thesis by simp
        qed
        with l show ?thesis by simp
      next
        case False
        with unf Cons 1(3) have "rest = rest'" by (simp split: if_splits)
        with l show ?thesis by simp
      qed
    qed
  qed
qed

text \<open>
  \<open>ReadAll\<close>: records are read until the input ends; empty lines are skipped; the first
  record fixes \<open>FieldsPerRecord\<close> (0 while unset) and a later record of another length is
  \<open>ErrFieldCount\<close>. The first error ends the read.
\<close>

function read_records :: "char \<Rightarrow> bool \<Rightarrow> string \<Rightarrow> nat \<Rightarrow> table \<Rightarrow> csv_error + table" where
  "read_records comma trim s n recs =
     (case s of
        [] \<Rightarrow> Inr recs
      | c # s' \<Rightarrow>
          if c = LF then read_records comma trim s' n recs
          else (case parse_fields comma trim s [] of
                  Inl e \<Rightarrow> Inl e
                | Inr (r, rest) \<Rightarrow>
                    if 0 < n \<and> length r \<noteq> n then Inl ErrFieldCount
                    else read_records comma trim rest (if n = 0 then length r else n) (recs @ [r])))"
  by pat_completeness auto
termination
proof (relation "measure (\<lambda>(comma, trim, s, n, recs). length s)", goal_cases)
  case 1
  show ?case by simp
next
  case (2 comma trim s n recs c s')
  then show ?case by simp
next
  case (3 comma trim s n recs c s' x2 r rest)
  then have "parse_fields comma trim s [] = Inr (r, rest)" and "s \<noteq> []"
    by auto
  then have "length rest < length s"
    by (rule parse_fields_shorter)
  then show ?case by simp
qed

declare read_records.simps [simp del]

definition valid_delim :: "char \<Rightarrow> bool" where
  "valid_delim c \<longleftrightarrow> c \<noteq> CHR 0x00 \<and> c \<noteq> DQ \<and> c \<noteq> CR \<and> c \<noteq> LF"

definition encoding_csv_ReadAll :: "char \<Rightarrow> bool \<Rightarrow> string \<Rightarrow> error + table" where
  "encoding_csv_ReadAll comma trim input =
     (if \<not> valid_delim comma then Inl (CsvError ErrInvalidDelim)
      else (case read_records comma trim (normalize_newlines input) 0 [] of
              Inl e \<Rightarrow> Inl (CsvError e)
            | Inr t \<Rightarrow> Inr t))"

subsection \<open>The delimited table of the specification\<close>




section \<open>csvParser.Parse\<close>

text \<open>
  The loop \<open>for i := 0; i < len(s.c.Output.Records); i++ { r := ...; res[r.Id] = table(data).zip(...) }\<close>.
\<close>

fun csv_records :: "table \<Rightarrow> ParserRecordConfig list \<Rightarrow> records \<Rightarrow> panic + records" where
  "csv_records data [] res = Inr res"
| "csv_records data (r # rs) res =
     (case table_zip data (Record_Header r) (FirstLineIsHeader r) of
        Inl p \<Rightarrow> Inl p
      | Inr rows \<Rightarrow> csv_records data rs (res(Record_Id r \<mapsto> rows)))"

text \<open>
  \<open>csvr.Comma = ':'\<close>, \<open>csvr.TrimLeadingSpace = true\<close>, then \<open>ReadAll\<close>. The reader is the
  parameter \<open>ReadAll\<close> (delimiter, trim flag, input).
\<close>

definition csvParser_Parse ::
  "(char \<Rightarrow> bool \<Rightarrow> string \<Rightarrow> error + table) \<Rightarrow> SourceConfig \<Rightarrow> string \<Rightarrow> fault + records" where
  "csvParser_Parse ReadAll c input =
     (case ReadAll (CHR '':'') True input of
        Inl err \<Rightarrow> Inl (Error err)
      | Inr data \<Rightarrow>
          (case csv_records data (Output_Records (Source_Output c)) Map.empty of
             Inl p \<Rightarrow> Inl (Panic p)
           | Inr res \<Rightarrow> Inr res))"

section \<open>htmlqueryParser\<close>

text \<open>
  The markup libraries (\<open>golang.org/x/net/html\<close>, \<open>github.com/antchfx/htmlquery\<close>) are
  outside the repository: the parser takes them as a record of functions over a node type
  \<open>'n\<close>. \<open>FindOne\<close> may return the nil node (\<open>None\<close>); \<open>FindOne\<close> and \<open>Find\<close> may panic.
\<close>

record 'n htmlquery =
  html_Parse :: "string \<Rightarrow> error + 'n"
  FindOne :: "'n \<Rightarrow> string \<Rightarrow> panic + 'n option"
  Find :: "'n option \<Rightarrow> string \<Rightarrow> panic + 'n list"
  InnerText :: "'n \<Rightarrow> string"

text \<open>Go's \<open>m[k]\<close> on a \<open>map[string]string\<close>: the empty string when the key is absent.\<close>

definition map_index :: "(string \<rightharpoonup> string) \<Rightarrow> string \<Rightarrow> string" where
  "map_index m k = (case m k of None \<Rightarrow> [] | Some v \<Rightarrow> v)"

text \<open>The loop over the selected rows: the cells of each row, as text.\<close>

fun table_rows :: "'n htmlquery \<Rightarrow> 'n list \<Rightarrow> panic + table" where
  "table_rows hq [] = Inr []"
| "table_rows hq (r # tr) =
     (case Find hq (Some r) ''/td'' of
        Inl p \<Rightarrow> Inl p
      | Inr td \<Rightarrow>
          (case table_rows hq tr of
             Inl p \<Rightarrow> Inl p
           | Inr t \<Rightarrow> Inr (map (InnerText hq) td # t)))"

definition parseFormatTable :: "'n htmlquery \<Rightarrow> ParserRecordConfig \<Rightarrow> 'n \<Rightarrow> fault + table" where
  "parseFormatTable hq r doc =
     (case ParserOptions r ''path'' of
        None \<Rightarrow> Inl (Error (InvalidParserOption ''path'' (ParserOptions r)))
      | Some path \<Rightarrow>
          (case FindOne hq doc path of
             Inl p \<Rightarrow> Inl (Panic p)
           | Inr node \<Rightarrow>
               (case Find hq node ''/tr[td]'' of
                  Inl p \<Rightarrow> Inl (Panic p)
                | Inr tr \<Rightarrow>
                    (case table_rows hq tr of
                       Inl p \<Rightarrow> Inl (Panic p)
                     | Inr t \<Rightarrow> Inr t))))"

text \<open>
  The loop of \<open>htmlqueryParser.Parse\<close> over the record specs. An error of
  \<open>parseFormatTable\<close> is wrapped by \<open>fmt.Errorf("htmlqueryParser: %v", err)\<close>; the default
  branch of the switch builds the wrapped error about \<open>'format'\<close> itself.
\<close>

fun htmlquery_records ::
  "'n htmlquery \<Rightarrow> 'n \<Rightarrow> ParserRecordConfig list \<Rightarrow> records \<Rightarrow> fault + records" where
  "htmlquery_records hq doc [] res = Inr res"
| "htmlquery_records hq doc (r # rs) res =
     (if map_index (ParserOptions r) ''format'' = ''table'' then
        (case parseFormatTable hq r doc of
           Inl (Error err) \<Rightarrow> Inl (Error (HtmlqueryParserError err))
         | Inl (Panic p) \<Rightarrow> Inl (Panic p)
         | Inr t \<Rightarrow>
             (case table_zip t (Record_Header r) (FirstLineIsHeader r) of
                Inl p \<Rightarrow> Inl (Panic p)
              | Inr rows \<Rightarrow> htmlquery_records hq doc rs (res(Record_Id r \<mapsto> rows))))
      else Inl (Error (HtmlqueryParserError (InvalidParserOption ''format'' (ParserOptions r)))))"

definition htmlqueryParser_Parse :: "'n htmlquery \<Rightarrow> SourceConfig \<Rightarrow> string \<Rightarrow> fault + records" where
  "htmlqueryParser_Parse hq c input =
     (case html_Parse hq input of
        Inl err \<Rightarrow> Inl (Error err)
      | Inr doc \<Rightarrow> htmlquery_records hq doc (Output_Records (Source_Output c)) Map.empty)"

section \<open>Source.pull\<close>

text \<open>
  The interfaces \<open>Command\<close> and \<open>Parser\<close> are function values; the implementations of the
  repository read only the configuration \<open>s.c\<close> of the source they are given. A nil
  interface is \<open>None\<close>. \<open>pull\<close> returns, beside its result, the collaborators it invoked.
\<close>

type_synonym Command = "SourceConfig \<Rightarrow> error + string"
type_synonym Parser = "SourceConfig \<Rightarrow> string \<Rightarrow> fault + records"

record Source =
  Source_c :: SourceConfig
  Source_command :: "Command option"
  Source_parser :: "Parser option"

datatype call = Execute_call | Parse_call

definition Source_pull :: "Source \<Rightarrow> call list \<times> (fault + records)" where
  "Source_pull s =
     (case Source_command s of
        None \<Rightarrow> ([], Inl (Error UndefinedCommand))
      | Some command \<Rightarrow>
          (case command (Source_c s) of
             Inl err \<Rightarrow> ([Execute_call], Inl (Error err))
           | Inr output \<Rightarrow>
               (case Source_parser s of
                  None \<Rightarrow> ([Execute_call], Inl (Panic NilDereference))
                | Some parser \<Rightarrow>
                    (case parser (Source_c s) output of
                       Inl f \<Rightarrow> ([Execute_call, Parse_call], Inl f)
                     | Inr res \<Rightarrow> ([Execute_call, Parse_call], Inr res)))))"

text \<open>
  \<open>shellCommand.Execute\<close>: the shell is the parameter \<open>sh\<close> (deadline, command line), which
  returns the combined output or the error of the run.
\<close>

definition shellCommand_Execute :: "(int \<Rightarrow> string \<Rightarrow> error + string) \<Rightarrow> Command" where
  "shellCommand_Execute sh c =
     (case sh (Source_Timeout c) (Source_Command c) of
        Inl err \<Rightarrow> Inl err
      | Inr res \<Rightarrow> Inr res)"

section \<open>record.value: the value extractor\<close>






subsection \<open>A model of \<open>fmt.Sscanf\<close> with one operand\<close>










section \<open>Monitors and the gauge sink\<close>

text \<open>
  The gauge vector of the metrics library is represented by the \<open>Set\<close> calls it has
  received, oldest first, each with its label values; the published value of a label set
  is the last one set. The checks of the metrics library on label values are outside the
  model.
\<close>

record GaugeVec =
  samples :: "(string list \<times> float64) list"

definition published :: "GaugeVec \<Rightarrow> string list \<rightharpoonup> float64" where
  "published g = map_of (rev (samples g))"





section \<open>WatchService.Start\<close>

text \<open>
  Instants are nanosecond counts; \<open>time.Since(t)\<close> is the clock reading minus \<open>t\<close>,
  saturated to the range of \<open>time.Duration\<close> (a signed 64-bit count). The clock is read
  where the source reads it and the readings are parameters of the model. The clock is
  monotonic: a later reading is not smaller than an earlier one, and two readings are
  equal when the clock has not ticked between them.
\<close>

type_synonym time = int



record SourcesData =
  data :: "string \<rightharpoonup> records"
  updated :: time









section \<open>Test doubles and fixtures\<close>

text \<open>
  As in watch_test.go: a source configuration that holds only record specs
  (\<open>s := &Source{}; s.c.Output.Records = tt.records\<close>), the record spec \<open>wifi\<close> of
  \<open>Test_csvParser_Parse\<close>, and a markup library double that serves a document whose
  selected table body has the given cells.
\<close>

definition test_config :: "ParserRecordConfig list \<Rightarrow> SourceConfig" where
  "test_config rs =
     \<lparr>Source_Id = [], Source_Command = [], Source_Timeout = 0,
      Source_Output = \<lparr>Output_Parser = [], Output_Records = rs\<rparr>\<rparr>"

definition wifi_spec :: ParserRecordConfig where
  "wifi_spec =
     \<lparr>Record_Id = ''wifi'', FirstLineIsHeader = False, Record_Header = [''signal'', ''ssid''],
      ParserOptions = [''separator'' \<mapsto> '':'']\<rparr>"

datatype test_node = Document | Body | TableRow "string list" | Cell string

definition test_htmlquery :: "table \<Rightarrow> test_node htmlquery" where
  "test_htmlquery t =
     \<lparr>html_Parse = (\<lambda>input. Inr Document),
      FindOne = (\<lambda>n path. Inr (Some Body)),
      Find = (\<lambda>n expr. case n of
                Some Body \<Rightarrow> Inr (map TableRow t)
              | Some (TableRow cs) \<Rightarrow> Inr (map Cell cs)
              | _ \<Rightarrow> Inr []),
      InnerText = (\<lambda>n. case n of Cell x \<Rightarrow> x | _ \<Rightarrow> [])\<rparr>"

definition table_spec :: "string list \<Rightarrow> bool \<Rightarrow> ParserRecordConfig" where
  "table_spec header skip =
     \<lparr>Record_Id = ''downstream'', FirstLineIsHeader = skip, Record_Header = header,
      ParserOptions = [''format'' \<mapsto> ''table'', ''path'' \<mapsto> ''//table[1]/tbody'']\<rparr>"












section \<open>Properties of table.zip\<close>

lemma zip_fields_empty_header: "zip_fields [] r 0 res = Inr res"
  by (subst zip_fields.simps) simp

lemma zip_fields_panic: "zip_fields header r j res = Inl p \<Longrightarrow> p = IndexOutOfRange"
proof (induction header r j res rule: zip_fields.induct)
  case (1 header r j res)
  from "1.prems" show ?case
    by (subst (asm) zip_fields.simps) (auto split: if_splits dest: "1.IH")
qed

lemma zip_fields_short:
  "length r < length header \<Longrightarrow> j \<le> length r \<Longrightarrow> zip_fields header r j res = Inl IndexOutOfRange"
proof (induction header r j res rule: zip_fields.induct)
  case (1 header r j res)
  show ?case
  proof (cases "j < length r")
    case True
    with "1.prems" have "zip_fields header r (Suc j) (res(header ! j \<mapsto> r ! j)) = Inl IndexOutOfRange"
      by (intro "1.IH") simp_all
    with True "1.prems" show ?thesis by (subst zip_fields.simps) simp
  next
    case False
    with "1.prems" show ?thesis by (subst zip_fields.simps) simp
  qed
qed

lemma zip_rows_panic: "zip_rows header t = Inl p \<Longrightarrow> p = IndexOutOfRange"
  by (induction t arbitrary: p) (auto split: sum.splits dest: zip_fields_panic)

lemma zip_rows_short:
  "\<exists>r\<in>set t. length r < length header \<Longrightarrow> zip_rows header t = Inl IndexOutOfRange"
proof (induction t)
  case Nil
  then show ?case by simp
next
  case (Cons r t)
  show ?case
  proof (cases "length r < length header")
    case True
    then show ?thesis by (simp add: zip_fields_short)
  next
    case False
    with Cons have "zip_rows header t = Inl IndexOutOfRange" by simp
    then show ?thesis
      by (auto split: sum.splits dest: zip_fields_panic)
  qed
qed

lemma zip_rows_empty_header: "zip_rows [] t = Inr (replicate (length t) Map.empty)"
  by (induction t) (simp_all add: zip_fields_empty_header)

lemma table_zip_no_rows: "table_zip [] header True = Inl SliceBoundsOutOfRange"
  by (simp add: table_zip_def)

lemma table_zip_short:
  "\<exists>r\<in>set t. length r < length header \<Longrightarrow> table_zip t header skip = Inl IndexOutOfRange"
  by (simp add: table_zip_def zip_rows_short)

lemma table_zip_empty_header:
  "\<not> (skip \<and> t = []) \<Longrightarrow>
   table_zip t [] skip = Inr (replicate (length t - (if skip then 1 else 0)) Map.empty)"
  by (auto simp: table_zip_def zip_rows_empty_header Suc_le_eq)

section \<open>The reader splits as the specification says\<close>























section \<open>Properties of the parsers\<close>

lemma csv_records_append:
  "csv_records t (pre @ rs) res =
     (case csv_records t pre res of Inl p \<Rightarrow> Inl p | Inr res' \<Rightarrow> csv_records t rs res')"
  by (induction pre arbitrary: res) (auto split: sum.splits)

lemma htmlquery_records_append:
  "htmlquery_records hq doc (pre @ rs) res =
     (case htmlquery_records hq doc pre res of
        Inl f \<Rightarrow> Inl f
      | Inr res' \<Rightarrow> htmlquery_records hq doc rs res')"
  by (induction pre arbitrary: res) (auto split: sum.splits fault.splits)

lemma csv_records_no_rows:
  "r \<in> set rs \<Longrightarrow> FirstLineIsHeader r \<Longrightarrow> csv_records [] rs res = Inl SliceBoundsOutOfRange"
proof (induction rs arbitrary: res)
  case Nil
  then show ?case by simp
next
  case (Cons x rs)
  show ?case
  proof (cases "FirstLineIsHeader x")
    case True
    then show ?thesis by (simp add: table_zip_no_rows)
  next
    case False
    with Cons.prems have "r \<in> set rs" by auto
    with Cons have "\<And>res. csv_records [] rs res = Inl SliceBoundsOutOfRange" by simp
    with False show ?thesis by (simp add: table_zip_def)
  qed
qed

text \<open>
  C10. For both parser variants, a record spec with \<open>firstLineIsHeader\<close> set, applied to an
  input that produced zero rows, panics on slicing off the first element of the empty row
  list; it yields neither zero rows nor a parse error. For the delimited parser every
  record spec of the list sees the same empty table, so any flagged spec brings the
  panic; for the markup parser the flagged spec is reached after the specs before it
  have been processed.
\<close>

theorem first_line_is_header_no_rows_panics:
  "(ReadAll (CHR '':'') True input = Inr [] \<and> r \<in> set (Output_Records (Source_Output c)) \<and>
    FirstLineIsHeader r \<longrightarrow>
      csvParser_Parse ReadAll c input = Inl (Panic SliceBoundsOutOfRange)) \<and>
   (html_Parse hq input' = Inr doc \<and> Output_Records (Source_Output c') = pre @ r' # post \<and>
    htmlquery_records hq doc pre Map.empty = Inr res \<and>
    map_index (ParserOptions r') ''format'' = ''table'' \<and>
    parseFormatTable hq r' doc = Inr [] \<and> FirstLineIsHeader r' \<longrightarrow>
      htmlqueryParser_Parse hq c' input' = Inl (Panic SliceBoundsOutOfRange))"
proof (intro conjI impI)
  assume "ReadAll (CHR '':'') True input = Inr [] \<and>
    r \<in> set (Output_Records (Source_Output c)) \<and> FirstLineIsHeader r"
  then have "ReadAll (CHR '':'') True input = Inr []"
    and "csv_records [] (Output_Records (Source_Output c)) Map.empty = Inl SliceBoundsOutOfRange"
    by (simp_all add: csv_records_no_rows [of r])
  then show "csvParser_Parse ReadAll c input = Inl (Panic SliceBoundsOutOfRange)"
    by (simp add: csvParser_Parse_def)
next
  assume a: "html_Parse hq input' = Inr doc \<and>
    Output_Records (Source_Output c') = pre @ r' # post \<and>
    htmlquery_records hq doc pre Map.empty = Inr res \<and>
    map_index (ParserOptions r') ''format'' = ''table'' \<and>
    parseFormatTable hq r' doc = Inr [] \<and> FirstLineIsHeader r'"
  then have "htmlquery_records hq doc (r' # post) res = Inl (Panic SliceBoundsOutOfRange)"
    by (simp add: table_zip_no_rows)
  with a show "htmlqueryParser_Parse hq c' input' = Inl (Panic SliceBoundsOutOfRange)"
    by (simp add: htmlqueryParser_Parse_def htmlquery_records_append)
qed

lemmas csv_eval =
  encoding_csv_ReadAll_def valid_delim_def read_records.simps parse_fields.simps
  trim_leading_space.simps space_rune_len_def space_runes_def Let_def

lemmas htmlquery_eval =
  test_htmlquery_def table_spec_def parseFormatTable_def map_index_def test_config_def

theorem first_line_is_header_no_rows_panics_witness:
  "encoding_csv_ReadAll (CHR '':'') True [] = Inr [] \<and>
   csvParser_Parse encoding_csv_ReadAll
     (test_config [wifi_spec\<lparr>FirstLineIsHeader := True\<rparr>]) [] =
     Inl (Panic SliceBoundsOutOfRange) \<and>
   parseFormatTable (test_htmlquery []) (table_spec [''name''] True) Document = Inr [] \<and>
   htmlqueryParser_Parse (test_htmlquery [])
     (test_config [table_spec [''name''] False, table_spec [''name''] True]) [] =
     Inl (Panic SliceBoundsOutOfRange)"
  using first_line_is_header_no_rows_panics
    [of encoding_csv_ReadAll "[]" "wifi_spec\<lparr>FirstLineIsHeader := True\<rparr>"
        "test_config [wifi_spec\<lparr>FirstLineIsHeader := True\<rparr>]"
        "test_htmlquery []" "[]" Document
        "test_config [table_spec [''name''] False, table_spec [''name''] True]"
        "[table_spec [''name''] False]" "table_spec [''name''] True" "[]"
        "[''downstream'' \<mapsto> []]"]
  by (simp add: csv_eval htmlquery_eval table_zip_def)

text \<open>
  C7, as the code has it. For both parser variants and every parsed table, a record spec
  with an empty header yields rows that are empty field maps, one per table row, minus
  the first if the spec is marked "first row is header", and the step of the parse for
  that spec neither fails nor panics, provided the table has a row or the spec is not
  marked. (With the mark and no row the slice panics: the counterexample below.)
\<close>

theorem empty_header_yields_empty_rows:
  "Record_Header r = [] \<and> \<not> (FirstLineIsHeader r \<and> t = []) \<longrightarrow>
     table_zip t (Record_Header r) (FirstLineIsHeader r) =
       Inr (replicate (length t - (if FirstLineIsHeader r then 1 else 0)) Map.empty) \<and>
     csv_records t (r # rs) res =
       csv_records t rs
         (res(Record_Id r \<mapsto> replicate (length t - (if FirstLineIsHeader r then 1 else 0)) Map.empty)) \<and>
     (ReadAll (CHR '':'') True input = Inr t \<and> Output_Records (Source_Output c) = [r] \<longrightarrow>
        csvParser_Parse ReadAll c input =
          Inr [Record_Id r \<mapsto> replicate (length t - (if FirstLineIsHeader r then 1 else 0)) Map.empty]) \<and>
     (map_index (ParserOptions r) ''format'' = ''table'' \<and> parseFormatTable hq r doc = Inr t \<longrightarrow>
        htmlquery_records hq doc (r # rs) res =
          htmlquery_records hq doc rs
            (res(Record_Id r \<mapsto> replicate (length t - (if FirstLineIsHeader r then 1 else 0)) Map.empty)))"
proof (intro impI)
  assume a: "Record_Header r = [] \<and> \<not> (FirstLineIsHeader r \<and> t = [])"
  then have z: "table_zip t (Record_Header r) (FirstLineIsHeader r) =
      Inr (replicate (length t - (if FirstLineIsHeader r then 1 else 0)) Map.empty)"
    using table_zip_empty_header [of "FirstLineIsHeader r" t] by simp
  then show "table_zip t (Record_Header r) (FirstLineIsHeader r) =
       Inr (replicate (length t - (if FirstLineIsHeader r then 1 else 0)) Map.empty) \<and>
     csv_records t (r # rs) res =
       csv_records t rs
         (res(Record_Id r \<mapsto> replicate (length t - (if FirstLineIsHeader r then 1 else 0)) Map.empty)) \<and>
     (ReadAll (CHR '':'') True input = Inr t \<and> Output_Records (Source_Output c) = [r] \<longrightarrow>
        csvParser_Parse ReadAll c input =
          Inr [Record_Id r \<mapsto> replicate (length t - (if FirstLineIsHeader r then 1 else 0)) Map.empty]) \<and>
     (map_index (ParserOptions r) ''format'' = ''table'' \<and> parseFormatTable hq r doc = Inr t \<longrightarrow>
        htmlquery_records hq doc (r # rs) res =
          htmlquery_records hq doc rs
            (res(Record_Id r \<mapsto> replicate (length t - (if FirstLineIsHeader r then 1 else 0)) Map.empty)))"
    by (simp add: csvParser_Parse_def)
qed

theorem empty_header_yields_empty_rows_witness:
  "table_zip [[''0'', ''s0''], [''255'', ''s1'']] [] True = Inr [Map.empty] \<and>
   csvParser_Parse encoding_csv_ReadAll
     (test_config [wifi_spec\<lparr>FirstLineIsHeader := True, Record_Header := []\<rparr>])
     (''0:s0'' @ [LF] @ ''255:s1'') = Inr [''wifi'' \<mapsto> [Map.empty]] \<and>
   htmlquery_records (test_htmlquery [[''0'', ''s0''], [''255'', ''s1'']]) Document
     [table_spec [] True] Map.empty = Inr [''downstream'' \<mapsto> [Map.empty]]"
  using empty_header_yields_empty_rows
    [of "wifi_spec\<lparr>FirstLineIsHeader := True, Record_Header := []\<rparr>"
        "[[''0'', ''s0''], [''255'', ''s1'']]" "[]" Map.empty encoding_csv_ReadAll
        "''0:s0'' @ [LF] @ ''255:s1''"
        "test_config [wifi_spec\<lparr>FirstLineIsHeader := True, Record_Header := []\<rparr>]"]
    empty_header_yields_empty_rows
    [of "table_spec [] True" "[[''0'', ''s0''], [''255'', ''s1'']]" "[]" Map.empty
        encoding_csv_ReadAll "[]" "test_config []"
        "test_htmlquery [[''0'', ''s0''], [''255'', ''s1'']]" Document]
  by (simp add: csv_eval htmlquery_eval wifi_spec_def)

text \<open>
  The claim as stated fails on the empty table: with an empty header and the mark
  "first row is header", the delimited parser on empty input and the markup parser on a
  table body without rows panic.
\<close>

theorem empty_header_counterexample:
  "csvParser_Parse encoding_csv_ReadAll
     (test_config [wifi_spec\<lparr>FirstLineIsHeader := True, Record_Header := []\<rparr>]) [] =
     Inl (Panic SliceBoundsOutOfRange) \<and>
   htmlqueryParser_Parse (test_htmlquery []) (test_config [table_spec [] True]) [] =
     Inl (Panic SliceBoundsOutOfRange)"
  by (simp add: csvParser_Parse_def htmlqueryParser_Parse_def csv_eval htmlquery_eval
      wifi_spec_def table_zip_def)

lemma table_rows_cells:
  "\<forall>x\<in>set tr. \<exists>td. Find hq (Some x) ''/td'' = Inr td \<Longrightarrow>
   table_rows hq tr =
     Inr (map (\<lambda>x. map (InnerText hq) (projr (Find hq (Some x) ''/td''))) tr)"
  by (induction tr) auto

text \<open>
  C9. For the markup-table parser, if a selected table row has fewer cells than the
  header of the record spec has entries, zipping the row against the header reads past
  the end of the row's cells and the parse panics; it returns no parse error and pads
  nothing. (The rows selected by \<open>/tr[td]\<close> have at least one cell; the panic needs only
  the row to be shorter than the header.) The record spec is reached after the specs
  before it have been processed, and the markup library itself does not panic.
\<close>

theorem short_row_panics:
  "html_Parse hq input = Inr doc \<and> Output_Records (Source_Output c) = pre @ r # post \<and>
   htmlquery_records hq doc pre Map.empty = Inr res \<and>
   map_index (ParserOptions r) ''format'' = ''table'' \<and> ParserOptions r ''path'' = Some path \<and>
   FindOne hq doc path = Inr node \<and> Find hq node ''/tr[td]'' = Inr tr \<and>
   (\<forall>x\<in>set tr. \<exists>td. Find hq (Some x) ''/td'' = Inr td) \<and>
   (\<exists>x\<in>set tr. \<exists>td. Find hq (Some x) ''/td'' = Inr td \<and> length td < length (Record_Header r))
   \<longrightarrow> htmlqueryParser_Parse hq c input = Inl (Panic IndexOutOfRange)"
proof (intro impI, elim conjE)
  assume doc: "html_Parse hq input = Inr doc"
    and recs: "Output_Records (Source_Output c) = pre @ r # post"
    and pre: "htmlquery_records hq doc pre Map.empty = Inr res"
    and fmt: "map_index (ParserOptions r) ''format'' = ''table''"
    and path: "ParserOptions r ''path'' = Some path"
    and one: "FindOne hq doc path = Inr node"
    and rows: "Find hq node ''/tr[td]'' = Inr tr"
    and cells: "\<forall>x\<in>set tr. \<exists>td. Find hq (Some x) ''/td'' = Inr td"
    and short: "\<exists>x\<in>set tr. \<exists>td. Find hq (Some x) ''/td'' = Inr td \<and>
      length td < length (Record_Header r)"
  define t where "t = map (\<lambda>x. map (InnerText hq) (projr (Find hq (Some x) ''/td''))) tr"
  have "parseFormatTable hq r doc = Inr t"
    using path one rows table_rows_cells [OF cells] by (simp add: parseFormatTable_def t_def)
  moreover have "\<exists>row\<in>set t. length row < length (Record_Header r)"
  proof -
    from short obtain x td where x: "x \<in> set tr" and td: "Find hq (Some x) ''/td'' = Inr td"
      and len: "length td < length (Record_Header r)"
      by blast
    from x have "map (InnerText hq) (projr (Find hq (Some x) ''/td'')) \<in> set t"
      by (simp add: t_def)
    moreover from td len
    have "length (map (InnerText hq) (projr (Find hq (Some x) ''/td''))) < length (Record_Header r)"
      by simp
    ultimately show ?thesis by blast
  qed
  then have "table_zip t (Record_Header r) (FirstLineIsHeader r) = Inl IndexOutOfRange"
    by (rule table_zip_short)
  ultimately have "htmlquery_records hq doc (r # post) res = Inl (Panic IndexOutOfRange)"
    using fmt by simp
  with doc recs pre show "htmlqueryParser_Parse hq c input = Inl (Panic IndexOutOfRange)"
    by (simp add: htmlqueryParser_Parse_def htmlquery_records_append)
qed

theorem short_row_panics_witness:
  "Find (test_htmlquery [[''Upstream 1'', ''5'', ''36.00 MHz'']]) (Some Body) ''/tr[td]'' =
     Inr [TableRow [''Upstream 1'', ''5'', ''36.00 MHz'']] \<and>
   Find (test_htmlquery [[''Upstream 1'', ''5'', ''36.00 MHz'']])
     (Some (TableRow [''Upstream 1'', ''5'', ''36.00 MHz''])) ''/td'' =
     Inr [Cell ''Upstream 1'', Cell ''5'', Cell ''36.00 MHz''] \<and>
   htmlqueryParser_Parse (test_htmlquery [[''Upstream 1'', ''5'', ''36.00 MHz'']])
     (test_config [table_spec [''name'', ''dcid'', ''freq'', ''power''] False]) [] =
     Inl (Panic IndexOutOfRange)"
  using short_row_panics
    [of "test_htmlquery [[''Upstream 1'', ''5'', ''36.00 MHz'']]" "[]" Document
        "test_config [table_spec [''name'', ''dcid'', ''freq'', ''power''] False]"
        "[]" "table_spec [''name'', ''dcid'', ''freq'', ''power''] False" "[]" Map.empty
        "''//table[1]/tbody''" "Some Body" "[TableRow [''Upstream 1'', ''5'', ''36.00 MHz'']]"]
  by (simp add: htmlquery_eval)

lemma map_index_format:
  "map_index opts ''format'' = ''table'' \<longleftrightarrow> opts ''format'' = Some ''table''"
  by (auto simp: map_index_def split: option.splits)

text \<open>
  C6. For the markup-table parser, a record spec whose options lack a \<open>format\<close> entry
  equal to \<open>table\<close> fails with the named configuration error that identifies the option
  \<open>format\<close> and carries the full option map; a record spec with format \<open>table\<close> and no
  \<open>path\<close> option fails with the error that identifies \<open>path\<close> and carries the full option
  map; the two errors differ, and in both cases the parse of the source returns the
  error and no record mapping. The document has been parsed and the record specs
  before the offending one have been processed.
\<close>

theorem invalid_parser_option_errors:
  "html_Parse hq input = Inr doc \<and> Output_Records (Source_Output c) = pre @ r # post \<and>
   htmlquery_records hq doc pre Map.empty = Inr res \<longrightarrow>
     (ParserOptions r ''format'' \<noteq> Some ''table'' \<longrightarrow>
        htmlqueryParser_Parse hq c input =
          Inl (Error (HtmlqueryParserError (InvalidParserOption ''format'' (ParserOptions r))))) \<and>
     (ParserOptions r ''format'' = Some ''table'' \<and> ParserOptions r ''path'' = None \<longrightarrow>
        htmlqueryParser_Parse hq c input =
          Inl (Error (HtmlqueryParserError (InvalidParserOption ''path'' (ParserOptions r))))) \<and>
     HtmlqueryParserError (InvalidParserOption ''format'' (ParserOptions r)) \<noteq>
       HtmlqueryParserError (InvalidParserOption ''path'' (ParserOptions r))"
proof (intro impI conjI)
  assume a: "html_Parse hq input = Inr doc \<and>
    Output_Records (Source_Output c) = pre @ r # post \<and>
    htmlquery_records hq doc pre Map.empty = Inr res"
  {
    assume "ParserOptions r ''format'' \<noteq> Some ''table''"
    then have "htmlquery_records hq doc (r # post) res =
        Inl (Error (HtmlqueryParserError (InvalidParserOption ''format'' (ParserOptions r))))"
      by (simp add: map_index_format)
    with a show "htmlqueryParser_Parse hq c input =
        Inl (Error (HtmlqueryParserError (InvalidParserOption ''format'' (ParserOptions r))))"
      by (simp add: htmlqueryParser_Parse_def htmlquery_records_append)
  }
  {
    assume "ParserOptions r ''format'' = Some ''table'' \<and> ParserOptions r ''path'' = None"
    then have "htmlquery_records hq doc (r # post) res =
        Inl (Error (HtmlqueryParserError (InvalidParserOption ''path'' (ParserOptions r))))"
      by (simp add: map_index_format parseFormatTable_def)
    with a show "htmlqueryParser_Parse hq c input =
        Inl (Error (HtmlqueryParserError (InvalidParserOption ''path'' (ParserOptions r))))"
      by (simp add: htmlqueryParser_Parse_def htmlquery_records_append)
  }
  show "HtmlqueryParserError (InvalidParserOption ''format'' (ParserOptions r)) \<noteq>
      HtmlqueryParserError (InvalidParserOption ''path'' (ParserOptions r))"
    by simp
qed

text \<open>
  The witness runs the cases "bad parser format" and "bad parser path" of
  \<open>Test_htmlqueryParser_Parse\<close>.
\<close>

theorem invalid_parser_option_errors_witness:
  "htmlqueryParser_Parse (test_htmlquery [])
     (test_config [\<lparr>Record_Id = [], FirstLineIsHeader = False, Record_Header = [],
        ParserOptions = Map.empty\<rparr>]) [] =
     Inl (Error (HtmlqueryParserError (InvalidParserOption ''format'' Map.empty))) \<and>
   htmlqueryParser_Parse (test_htmlquery [])
     (test_config [\<lparr>Record_Id = [], FirstLineIsHeader = False, Record_Header = [],
        ParserOptions = [''format'' \<mapsto> ''table'']\<rparr>]) [] =
     Inl (Error (HtmlqueryParserError (InvalidParserOption ''path'' [''format'' \<mapsto> ''table''])))"
  using invalid_parser_option_errors
    [of "test_htmlquery []" "[]" Document
        "test_config [\<lparr>Record_Id = [], FirstLineIsHeader = False, Record_Header = [],
           ParserOptions = Map.empty\<rparr>]"
        "[]" "\<lparr>Record_Id = [], FirstLineIsHeader = False, Record_Header = [],
           ParserOptions = Map.empty\<rparr>" "[]" Map.empty]
    invalid_parser_option_errors
    [of "test_htmlquery []" "[]" Document
        "test_config [\<lparr>Record_Id = [], FirstLineIsHeader = False, Record_Header = [],
           ParserOptions = [''format'' \<mapsto> ''table'']\<rparr>]"
        "[]" "\<lparr>Record_Id = [], FirstLineIsHeader = False, Record_Header = [],
           ParserOptions = [''format'' \<mapsto> ''table'']\<rparr>" "[]" Map.empty]
  by (simp add: test_htmlquery_def test_config_def)

text \<open>
  C8. Parsing the delimited lines \<open>0:s0\<close>, \<open>255:s1\<close>, \<open>127:s2\<close> against the record spec
  \<open>wifi\<close> (header \<open>signal\<close>, \<open>ssid\<close>; first line not a header) yields under the record id
  \<open>wifi\<close> exactly the three rows, in that order. The second conjunct is the sample of
  \<open>Test_csvParser_Parse\<close> as written there, with its leading line break and tabs.
\<close>

theorem csv_parse_wifi_sample:
  "csvParser_Parse encoding_csv_ReadAll (test_config [wifi_spec])
     (''0:s0'' @ [LF] @ ''255:s1'' @ [LF] @ ''127:s2'') =
     Inr [''wifi'' \<mapsto>
       [[''signal'' \<mapsto> ''0'', ''ssid'' \<mapsto> ''s0''],
        [''signal'' \<mapsto> ''255'', ''ssid'' \<mapsto> ''s1''],
        [''signal'' \<mapsto> ''127'', ''ssid'' \<mapsto> ''s2'']]] \<and>
   csvParser_Parse encoding_csv_ReadAll (test_config [wifi_spec])
     ([LF, CHR 0x09] @ ''0:s0'' @ [LF, CHR 0x09] @ ''255:s1'' @ [LF, CHR 0x09] @ ''127:s2'') =
     Inr [''wifi'' \<mapsto>
       [[''signal'' \<mapsto> ''0'', ''ssid'' \<mapsto> ''s0''],
        [''signal'' \<mapsto> ''255'', ''ssid'' \<mapsto> ''s1''],
        [''signal'' \<mapsto> ''127'', ''ssid'' \<mapsto> ''s2'']]]"
  by (simp add: csvParser_Parse_def csv_eval test_config_def wifi_spec_def table_zip_def
      zip_fields.simps)





section \<open>Properties of Source.pull\<close>

text \<open>
  C5. \<open>pull\<close> on a source with no attached command runner fails at once with the
  undefined-command error, returns no record mapping, and invokes neither the command
  runner nor the parser.
\<close>

theorem pull_undefined_command:
  "Source_command s = None \<longrightarrow> Source_pull s = ([], Inl (Error UndefinedCommand))"
  by (simp add: Source_pull_def)

text \<open>The witness is the case "error: undefined command" of \<open>Test_Source_pull\<close>.\<close>

theorem pull_undefined_command_witness:
  "Source_pull \<lparr>Source_c = test_config [], Source_command = None, Source_parser = None\<rparr> =
     ([], Inl (Error UndefinedCommand))"
  using pull_undefined_command
    [of "\<lparr>Source_c = test_config [], Source_command = None, Source_parser = None\<rparr>"]
  by simp

section \<open>Properties of the value extractor\<close>





section \<open>Properties of the staleness gate and of the dispatch\<close>







section \<open>Properties of the fetch\<close>









end
